theory Spec2Isabelle
  imports
    Main
    "HOL-Library.Sublist"
    "HOL-Library.AList"
    "HOL-Library.Char_ord"
    "HOL-Library.List_Lexorder"
begin

section \<open>Eval set and eval set result storage managers\<close>

text \<open>
  A shallow embedding of the four storage managers of \<^verbatim>\<open>google.adk.evaluation\<close>:
  \<^verbatim>\<open>LocalEvalSetStorageManager\<close>, \<^verbatim>\<open>LocalEvalSetResultsStorageManager\<close>,
  \<^verbatim>\<open>GcsEvalSetStorageManager\<close> and \<^verbatim>\<open>GcsEvalSetResultsStorageManager\<close>.

  A Python \<^verbatim>\<open>str\<close> is a \<^typ>\<open>string\<close>, read as the UTF-8 bytes of the text: every string
  operation of the managers (\<^verbatim>\<open>startswith\<close>, \<^verbatim>\<open>endswith\<close>, \<^verbatim>\<open>removesuffix\<close>,
  \<^verbatim>\<open>split("/")\<close>, the comparison behind \<^verbatim>\<open>sorted\<close>, the ASCII class of the id pattern)
  gives the same answer on the bytes as on the code points. A raised exception is the \<open>Inl\<close>
  of a sum, a returned value its \<open>Inr\<close>.
\<close>

subsection \<open>Python string methods\<close>

definition startswith :: "string \<Rightarrow> string \<Rightarrow> bool" where
  "startswith s p = prefix p s"

definition endswith :: "string \<Rightarrow> string \<Rightarrow> bool" where
  "endswith s x = suffix x s"

text \<open>\<^verbatim>\<open>s.removesuffix(x)\<close>: one occurrence at the very end is removed, and only there.\<close>

definition removesuffix :: "string \<Rightarrow> string \<Rightarrow> string" where
  "removesuffix s x = (if x \<noteq> [] \<and> endswith s x then take (length s - length x) s else s)"

text \<open>\<^verbatim>\<open>s.split(c)\<close> for a separator of one character: never the empty list.\<close>

fun split_char :: "char \<Rightarrow> string \<Rightarrow> string list" where
  "split_char c [] = [[]]"
| "split_char c (x # xs) =
     (if x = c then [] # split_char c xs
      else (case split_char c xs of [] \<Rightarrow> [[x]] | w # ws \<Rightarrow> (x # w) # ws))"

text \<open>\<^verbatim>\<open>s.rstrip("/")\<close>.\<close>

definition rstrip_slash :: "string \<Rightarrow> string" where
  "rstrip_slash s = rev (dropWhile (\<lambda>c. c = CHR ''/'') (rev s))"

subsection \<open>\<^verbatim>\<open>os.path\<close> on a POSIX system\<close>

text \<open>
  \<^verbatim>\<open>posixpath.join(a, *p)\<close>: a component that starts with a slash discards what came
  before it; no separator is added after an empty path or after a path that already ends
  with one.
\<close>

definition join_step :: "string \<Rightarrow> string \<Rightarrow> string" where
  "join_step path b =
     (if startswith b ''/'' then b
      else if path = [] \<or> endswith path ''/'' then path @ b
      else path @ ''/'' @ b)"

definition os_path_join :: "string \<Rightarrow> string list \<Rightarrow> string" where
  "os_path_join a p = foldl join_step a p"

text \<open>
  \<^verbatim>\<open>posixpath.split(p)\<close>: the text up to and including the last slash, stripped of its
  trailing slashes unless it consists of slashes only, and the text after the last slash.
  \<^verbatim>\<open>dirname\<close> and \<^verbatim>\<open>basename\<close> are its two halves.
\<close>

definition os_path_basename :: "string \<Rightarrow> string" where
  "os_path_basename p = rev (takeWhile (\<lambda>c. c \<noteq> CHR ''/'') (rev p))"

definition os_path_dirname :: "string \<Rightarrow> string" where
  "os_path_dirname p =
     (let head = take (length p - length (os_path_basename p)) p
      in if head \<noteq> [] \<and> head \<noteq> replicate (length head) CHR ''/'' then rstrip_slash head
         else head)"

subsection \<open>Errors\<close>

datatype os_error = FileNotFoundError | NotADirectoryError | IsADirectoryError | FileExistsError

datatype cloud_exception = NotFound | Forbidden

text \<open>
  What a manager's method can raise: the \<^verbatim>\<open>ValueError\<close> of the managers themselves with its
  message, an \<^verbatim>\<open>OSError\<close> of the file system, an exception of the object store's client
  library, or the validation error of the document class with its message.
\<close>

datatype error =
    ValueError string
  | OSError os_error
  | CloudError cloud_exception
  | ValidationError string

subsection \<open>Constants of the four modules\<close>

definition EVAL_SET_FILE_EXTENSION :: string where
  "EVAL_SET_FILE_EXTENSION = ''.evalset.json''"

definition EVAL_SET_RESULT_FILE_EXTENSION :: string where
  "EVAL_SET_RESULT_FILE_EXTENSION = ''.evalset_result.json''"

definition ADK_EVAL_HISTORY_DIR :: string where
  "ADK_EVAL_HISTORY_DIR = ''.adk/eval_history''"

definition EVAL_SETS_DIR :: string where
  "EVAL_SETS_DIR = ''evals/eval_sets''"

definition EVAL_HISTORY_DIR :: string where
  "EVAL_HISTORY_DIR = ''evals/eval_history''"

subsection \<open>The managers' configuration\<close>

text \<open>
  Both local managers hold the agents directory and nothing else. Both object-store
  managers hold the bucket's name; their client and bucket handles carry no further state
  of their own.
\<close>

record local_manager =
  agents_dir :: string

record gcs_manager =
  bucket_name :: string

subsection \<open>Path resolution\<close>

definition local_get_eval_set_path :: "local_manager \<Rightarrow> string \<Rightarrow> string \<Rightarrow> string" where
  "local_get_eval_set_path self app_name eval_set_id =
     os_path_join (agents_dir self) [app_name, eval_set_id @ EVAL_SET_FILE_EXTENSION]"

definition local_get_eval_history_dir :: "local_manager \<Rightarrow> string \<Rightarrow> string" where
  "local_get_eval_history_dir self app_name =
     os_path_join (agents_dir self) [app_name, ADK_EVAL_HISTORY_DIR]"

definition local_get_eval_set_result_path ::
  "local_manager \<Rightarrow> string \<Rightarrow> string \<Rightarrow> string" where
  "local_get_eval_set_result_path self app_name eval_set_result_id =
     os_path_join (agents_dir self)
       [app_name, ADK_EVAL_HISTORY_DIR, eval_set_result_id @ EVAL_SET_RESULT_FILE_EXTENSION]"

definition gcs_get_eval_sets_dir :: "string \<Rightarrow> string" where
  "gcs_get_eval_sets_dir app_name = app_name @ ''/'' @ EVAL_SETS_DIR"

definition gcs_get_eval_set_path :: "string \<Rightarrow> string \<Rightarrow> string" where
  "gcs_get_eval_set_path app_name eval_set_id =
     gcs_get_eval_sets_dir app_name @ ''/'' @ eval_set_id @ EVAL_SET_FILE_EXTENSION"

definition gcs_get_eval_history_dir :: "string \<Rightarrow> string" where
  "gcs_get_eval_history_dir app_name = app_name @ ''/'' @ EVAL_HISTORY_DIR"

definition gcs_get_eval_set_result_path :: "string \<Rightarrow> string \<Rightarrow> string" where
  "gcs_get_eval_set_result_path app_name eval_set_result_id =
     gcs_get_eval_history_dir app_name @ ''/'' @ eval_set_result_id
       @ EVAL_SET_RESULT_FILE_EXTENSION"

subsection \<open>Id validation of the object-store eval set manager\<close>

text \<open>
  \<^verbatim>\<open>re.fullmatch(r"^[a-zA-Z0-9_]+$", id_value)\<close>: the whole value is a non-empty run of
  characters of the class (a full match leaves no room for the newline that a bare
  \<^verbatim>\<open>$\<close> tolerates).
\<close>

definition is_word_char :: "char \<Rightarrow> bool" where
  "is_word_char c =
     (c \<in> set ''abcdefghijklmnopqrstuvwxyzABCDEFGHIJKLMNOPQRSTUVWXYZ0123456789_'')"

definition fullmatch_id_pattern :: "string \<Rightarrow> bool" where
  "fullmatch_id_pattern v = (v \<noteq> [] \<and> list_all is_word_char v)"

definition id_pattern :: string where
  "id_pattern = ''^[a-zA-Z0-9_]+$''"

definition validate_id :: "string \<Rightarrow> string \<Rightarrow> error + unit" where
  "validate_id id_name id_value =
     (if \<not> fullmatch_id_pattern id_value
      then Inl (ValueError (''Invalid '' @ id_name @ ''. '' @ id_name
                  @ '' should have the `'' @ id_pattern @ ''` format''))
      else Inr ())"

subsection \<open>The local file system\<close>

text \<open>
  The disk is a list of entries, each a path with what is there: a regular file with its
  text, or a directory. The list's order is the order in which a directory is enumerated,
  which the operating system does not promise. Paths are taken literally (no symbolic
  links, no \<^verbatim>\<open>.\<close> or \<^verbatim>\<open>..\<close>), relative paths are relative to a working directory that
  exists, and text is written and read in the same encoding (UTF-8).
\<close>

datatype node = File string | Dir

type_synonym filesystem = "(string \<times> node) list"

definition os_path_exists :: "filesystem \<Rightarrow> string \<Rightarrow> bool" where
  "os_path_exists fs p = (map_of fs p \<noteq> None)"



text \<open>An entry lies directly in the directory \<open>d\<close>.\<close>

definition is_child :: "string \<Rightarrow> string \<Rightarrow> bool" where
  "is_child d k = (os_path_dirname k = d \<and> os_path_basename k \<noteq> [])"

text \<open>\<^verbatim>\<open>os.listdir(d)\<close>: the names of the entries of a directory, in the disk's order.\<close>

definition os_listdir :: "filesystem \<Rightarrow> string \<Rightarrow> os_error + string list" where
  "os_listdir fs d =
     (case map_of fs d of
        None \<Rightarrow> Inl FileNotFoundError
      | Some (File t) \<Rightarrow> Inl NotADirectoryError
      | Some Dir \<Rightarrow> Inr (map os_path_basename (filter (is_child d) (map fst fs))))"

definition mkdir_missing :: "filesystem \<Rightarrow> string \<Rightarrow> filesystem" where
  "mkdir_missing fs p = (if os_path_exists fs p then fs else fs @ [(p, Dir)])"





subsection \<open>The object store\<close>

text \<open>
  The provider holds buckets by name; a bucket holds objects by name, each with its text,
  its content type and whether the caller may read it. A bucket the provider does not
  have answers every request with \<^verbatim>\<open>NotFound\<close>. An upload replaces the object as a whole;
  the new object is the caller's own.
\<close>

record blob =
  content :: string
  content_type :: string
  readable :: bool

type_synonym bucket = "(string \<times> blob) list"

type_synonym cloud = "string \<rightharpoonup> bucket"

definition bucket_exists :: "cloud \<Rightarrow> string \<Rightarrow> bool" where
  "bucket_exists c b = (c b \<noteq> None)"

definition list_blobs :: "cloud \<Rightarrow> string \<Rightarrow> string \<Rightarrow> cloud_exception + string list" where
  "list_blobs c b pre =
     (case c b of
        None \<Rightarrow> Inl NotFound
      | Some objs \<Rightarrow> Inr (filter (\<lambda>name. startswith name pre) (map fst objs)))"

definition upload_from_string ::
  "cloud \<Rightarrow> string \<Rightarrow> string \<Rightarrow> string \<Rightarrow> string \<Rightarrow> cloud_exception + cloud" where
  "upload_from_string c b name data ctype =
     (case c b of
        None \<Rightarrow> Inl NotFound
      | Some objs \<Rightarrow>
          Inr (c(b \<mapsto> AList.update name
                 \<lparr>content = data, content_type = ctype, readable = True\<rparr> objs)))"

definition download_as_text :: "cloud \<Rightarrow> string \<Rightarrow> string \<Rightarrow> cloud_exception + string" where
  "download_as_text c b name =
     (case c b of
        None \<Rightarrow> Inl NotFound
      | Some objs \<Rightarrow>
          (case map_of objs name of
             None \<Rightarrow> Inl NotFound
           | Some obj \<Rightarrow> if readable obj then Inr (content obj) else Inl Forbidden))"

subsection \<open>Documents\<close>

text \<open>
  \<^verbatim>\<open>EvalSet\<close> and \<^verbatim>\<open>EvalSetResult\<close> are defined outside the storage managers, which use two
  of their methods only. These are parameters of the model: \<open>dump\<close> is
  \<^verbatim>\<open>model_dump_json(indent=2)\<close>, and \<open>validate\<close> is \<^verbatim>\<open>model_validate_json\<close>, which returns
  a document or raises a validation error with a message. The document type is a type
  variable.
\<close>

subsection \<open>\<^verbatim>\<open>LocalEvalSetStorageManager\<close>\<close>

definition local_list_eval_sets ::
  "filesystem \<Rightarrow> local_manager \<Rightarrow> string \<Rightarrow> error + string list" where
  "local_list_eval_sets fs self app_name =
     (case os_listdir fs (os_path_join (agents_dir self) [app_name]) of
        Inl e \<Rightarrow> Inl (OSError e)
      | Inr files \<Rightarrow>
          Inr (sort (map (\<lambda>file. removesuffix (os_path_basename file) EVAL_SET_FILE_EXTENSION)
                      (filter (\<lambda>file. endswith file EVAL_SET_FILE_EXTENSION) files))))"



subsection \<open>\<^verbatim>\<open>LocalEvalSetResultsStorageManager\<close>\<close>

definition local_list_eval_set_results ::
  "filesystem \<Rightarrow> local_manager \<Rightarrow> string \<Rightarrow> error + string list" where
  "local_list_eval_set_results fs self app_name =
     (if \<not> os_path_exists fs (local_get_eval_history_dir self app_name) then Inr []
      else
        (case os_listdir fs (local_get_eval_history_dir self app_name) of
           Inl e \<Rightarrow> Inl (OSError e)
         | Inr files \<Rightarrow>
             Inr (sort (map (\<lambda>file. removesuffix file EVAL_SET_RESULT_FILE_EXTENSION)
                         (filter (\<lambda>file. endswith file EVAL_SET_RESULT_FILE_EXTENSION)
                            files)))))"



subsection \<open>\<^verbatim>\<open>GcsEvalSetStorageManager\<close>\<close>


definition gcs_list_eval_sets :: "cloud \<Rightarrow> gcs_manager \<Rightarrow> string \<Rightarrow> error + string list" where
  "gcs_list_eval_sets c self app_name =
     (case list_blobs c (bucket_name self) (gcs_get_eval_sets_dir app_name) of
        Inl e \<Rightarrow>
          if e = NotFound
          then Inl (ValueError (''App `'' @ app_name @ ''` not found in GCS bucket `''
                      @ bucket_name self @ ''`.''))
          else Inl (CloudError e)
      | Inr names \<Rightarrow>
          Inr (sort (map (\<lambda>name. removesuffix (last (split_char CHR ''/'' name))
                                    EVAL_SET_FILE_EXTENSION) names)))"



subsection \<open>\<^verbatim>\<open>GcsEvalSetResultsStorageManager\<close>\<close>


definition gcs_list_eval_set_results ::
  "cloud \<Rightarrow> gcs_manager \<Rightarrow> string \<Rightarrow> error + string list" where
  "gcs_list_eval_set_results c self app_name =
     (case list_blobs c (bucket_name self) (gcs_get_eval_history_dir app_name) of
        Inl e \<Rightarrow>
          if e = NotFound
          then Inl (ValueError (''App `'' @ app_name @ ''` not found in GCS bucket `''
                      @ bucket_name self @ ''`.''))
          else Inl (CloudError e)
      | Inr names \<Rightarrow>
          Inr (sort (map (\<lambda>name. removesuffix (last (split_char CHR ''/'' name))
                                    EVAL_SET_RESULT_FILE_EXTENSION) names)))"



subsection \<open>A caller that saves several documents\<close>


subsection \<open>What a namespace holds\<close>




subsection \<open>A document class for concrete runs\<close>



section \<open>Properties\<close>

subsection \<open>Strings and paths\<close>

lemmas const_defs = EVAL_SET_FILE_EXTENSION_def EVAL_SET_RESULT_FILE_EXTENSION_def
  ADK_EVAL_HISTORY_DIR_def EVAL_SETS_DIR_def EVAL_HISTORY_DIR_def

lemma startswith_slash: "startswith s ''/'' \<longleftrightarrow> (s \<noteq> [] \<and> hd s = CHR ''/'')"
  by (cases s) (auto simp: startswith_def)

lemma endswith_slash: "endswith s ''/'' \<longleftrightarrow> (s \<noteq> [] \<and> last s = CHR ''/'')"
  by (cases s rule: rev_cases) (auto simp: endswith_def suffix_def)

lemma join_step_plain:
  "\<not> startswith b ''/'' \<Longrightarrow> path \<noteq> [] \<Longrightarrow> \<not> endswith path ''/'' \<Longrightarrow>
   join_step path b = path @ ''/'' @ b"
  by (simp add: join_step_def)



lemma removesuffix_no_suffix: "\<not> endswith s x \<Longrightarrow> removesuffix s x = s"
  by (simp add: removesuffix_def)

lemma takeWhile_rev_all: "c \<notin> set n \<Longrightarrow> takeWhile (\<lambda>x. x \<noteq> c) (rev n) = rev n"
  by (auto simp: takeWhile_eq_all_conv)






lemma length_split_char:
  "length (split_char c s) = Suc (length (filter (\<lambda>x. x = c) s))"
  by (induction s) (auto split: list.splits)

lemma split_char_none: "c \<notin> set s \<Longrightarrow> split_char c s = [s]"
  by (induction s) auto

lemma last_split_char: "last (split_char c s) = rev (takeWhile (\<lambda>x. x \<noteq> c) (rev s))"
proof (induction s)
  case Nil
  then show ?case by simp
next
  case (Cons x xs)
  have ne: "split_char c xs \<noteq> []" using length_split_char[of c xs] by auto
  show ?case
  proof (cases "x = c")
    case True
    then show ?thesis using Cons ne by (simp add: takeWhile_append)
  next
    case False
    show ?thesis
    proof (cases "c \<in> set xs")
      case True
      then have "filter (\<lambda>x. x = c) xs \<noteq> []" by (simp add: filter_empty_conv)
      then have "length (split_char c xs) \<ge> 2" using length_split_char[of c xs]
        by (cases "filter (\<lambda>x. x = c) xs") auto
      then obtain w v ws where "split_char c xs = w # v # ws"
        by (cases "split_char c xs"; cases "tl (split_char c xs)") auto
      then show ?thesis using Cons False True by (auto simp: takeWhile_append)
    next
      case nin: False
      then show ?thesis using False by (simp add: split_char_none takeWhile_append takeWhile_rev_all)
    qed
  qed
qed

lemma last_split_slash: "last (split_char CHR ''/'' s) = os_path_basename s"
  by (simp add: last_split_char os_path_basename_def)


lemmas gcs_defs = bucket_exists_def list_blobs_def upload_from_string_def download_as_text_def
  gcs_get_eval_sets_dir_def gcs_get_eval_set_path_def gcs_get_eval_history_dir_def
  gcs_get_eval_set_result_path_def

lemma local_list_eval_set_results_missing:
  "\<not> os_path_exists fs (local_get_eval_history_dir self app) \<Longrightarrow>
   local_list_eval_set_results fs self app = Inr []"
  by (simp add: local_list_eval_set_results_def)

lemma local_list_eval_sets_missing:
  "\<not> os_path_exists fs (os_path_join (agents_dir self) [app]) \<Longrightarrow>
   local_list_eval_sets fs self app = Inl (OSError FileNotFoundError)"
  by (simp add: local_list_eval_sets_def os_listdir_def os_path_exists_def)

lemma basename_suffix: "suffix (os_path_basename s) s"
proof -
  have "rev s = takeWhile (\<lambda>c. c \<noteq> CHR ''/'') (rev s) @ dropWhile (\<lambda>c. c \<noteq> CHR ''/'') (rev s)"
    by simp
  then have "s = rev (dropWhile (\<lambda>c. c \<noteq> CHR ''/'') (rev s)) @ os_path_basename s"
    unfolding os_path_basename_def by (metis rev_append rev_rev_ident)
  then show ?thesis by (metis suffixI)
qed

lemma endswith_basename:
  assumes "CHR ''/'' \<notin> set x"
  shows "endswith (os_path_basename s) x = endswith s x"
proof
  assume "endswith (os_path_basename s) x"
  then show "endswith s x"
    unfolding endswith_def using basename_suffix suffix_order.trans by blast
next
  assume "endswith s x"
  then obtain u where s: "s = u @ x" by (auto simp: endswith_def suffix_def)
  have "takeWhile (\<lambda>c. c \<noteq> CHR ''/'') (rev x @ rev u)
      = rev x @ takeWhile (\<lambda>c. c \<noteq> CHR ''/'') (rev u)"
    using assms by (intro takeWhile_append2) auto
  then have "os_path_basename s = rev (takeWhile (\<lambda>c. c \<noteq> CHR ''/'') (rev u)) @ x"
    by (simp add: os_path_basename_def s)
  then show "endswith (os_path_basename s) x"
    by (simp add: endswith_def suffix_def)
qed


lemma download_absent:
  "c b = Some objs \<Longrightarrow> map_of objs key = None \<Longrightarrow> download_as_text c b key = Inl NotFound"
  by (simp add: download_as_text_def)











subsection \<open>Creating directories and saving on disk\<close>

lemma mkdir_missing_map_of:
  "map_of (mkdir_missing fs q) x = (if x = q \<and> map_of fs q = None then Some Dir else map_of fs x)"
  by (auto simp: mkdir_missing_def os_path_exists_def map_add_def split: option.splits)



lemma mkdirs_map_of_other:
  "x \<notin> set qs \<Longrightarrow> map_of (foldl mkdir_missing fs qs) x = map_of fs x"
  by (induction qs arbitrary: fs) (auto simp: mkdir_missing_map_of)

lemma mkdirs_map_of_kept:
  "map_of fs x = Some v \<Longrightarrow> map_of (foldl mkdir_missing fs qs) x = Some v"
proof (induction qs arbitrary: fs)
  case Nil
  then show ?case by simp
next
  case (Cons q qs)
  have "map_of (mkdir_missing fs q) x = Some v"
    using Cons.prems by (auto simp: mkdir_missing_map_of)
  then show ?case using Cons.IH by simp
qed

lemma mkdirs_map_of_made:
  "x \<in> set qs \<Longrightarrow> map_of fs x = None \<Longrightarrow> map_of (foldl mkdir_missing fs qs) x = Some Dir"
proof (induction qs arbitrary: fs)
  case Nil
  then show ?case by simp
next
  case (Cons q qs)
  show ?case
  proof (cases "x = q")
    case True
    have "map_of (mkdir_missing fs q) q = Some Dir"
      using Cons.prems True by (simp add: mkdir_missing_map_of)
    then show ?thesis using True by (simp add: mkdirs_map_of_kept)
  next
    case False
    then have "x \<in> set qs" using Cons.prems by simp
    moreover have "map_of (mkdir_missing fs q) x = None"
      using Cons.prems False by (simp add: mkdir_missing_map_of)
    ultimately show ?thesis using Cons.IH by simp
  qed
qed















subsection \<open>Resolved paths, listings and saves\<close>

lemma local_dir_plain:
  assumes "agents_dir self \<noteq> []" "\<not> endswith (agents_dir self) ''/''" "\<not> startswith app ''/''"
  shows "os_path_join (agents_dir self) [app] = agents_dir self @ ''/'' @ app"
  using assms by (simp add: os_path_join_def join_step_plain)

lemma local_history_dir_plain:
  assumes "agents_dir self \<noteq> []" "\<not> endswith (agents_dir self) ''/''"
    "app \<noteq> []" "\<not> startswith app ''/''" "\<not> endswith app ''/''"
  shows "local_get_eval_history_dir self app
    = agents_dir self @ ''/'' @ app @ ''/'' @ ADK_EVAL_HISTORY_DIR"
proof -
  have e1: "\<not> endswith (agents_dir self @ ''/'' @ app) ''/''"
    using assms by (simp add: endswith_slash)
  have "join_step (agents_dir self @ ''/'' @ app) ADK_EVAL_HISTORY_DIR
      = (agents_dir self @ ''/'' @ app) @ ''/'' @ ADK_EVAL_HISTORY_DIR"
    using e1 by (intro join_step_plain) (simp_all add: startswith_slash const_defs)
  then show ?thesis
    using local_dir_plain[OF assms(1,2,4)]
    by (simp add: local_get_eval_history_dir_def os_path_join_def)
qed

lemma local_eval_set_path_plain:
  assumes "agents_dir self \<noteq> []" "\<not> endswith (agents_dir self) ''/''"
    "app \<noteq> []" "\<not> startswith app ''/''" "\<not> endswith app ''/''" "\<not> startswith i ''/''"
  shows "local_get_eval_set_path self app i
    = os_path_join (agents_dir self) [app] @ ''/'' @ i @ EVAL_SET_FILE_EXTENSION"
proof -
  have e1: "\<not> endswith (agents_dir self @ ''/'' @ app) ''/''"
    using assms by (simp add: endswith_slash)
  have i1: "\<not> startswith (i @ EVAL_SET_FILE_EXTENSION) ''/''"
    using assms(6) by (cases i) (auto simp: startswith_slash const_defs)
  have "join_step (agents_dir self @ ''/'' @ app) (i @ EVAL_SET_FILE_EXTENSION)
      = (agents_dir self @ ''/'' @ app) @ ''/'' @ i @ EVAL_SET_FILE_EXTENSION"
    using e1 i1 by (intro join_step_plain) simp_all
  then show ?thesis
    using local_dir_plain[OF assms(1,2,4)]
    by (simp add: local_get_eval_set_path_def os_path_join_def)
qed

lemma local_eval_set_result_path_plain:
  assumes "agents_dir self \<noteq> []" "\<not> endswith (agents_dir self) ''/''"
    "app \<noteq> []" "\<not> startswith app ''/''" "\<not> endswith app ''/''" "\<not> startswith i ''/''"
  shows "local_get_eval_set_result_path self app i
    = local_get_eval_history_dir self app @ ''/'' @ i @ EVAL_SET_RESULT_FILE_EXTENSION"
proof -
  let ?h = "agents_dir self @ ''/'' @ app @ ''/'' @ ADK_EVAL_HISTORY_DIR"
  have h: "local_get_eval_history_dir self app = ?h"
    using assms(1-5) by (rule local_history_dir_plain)
  have e2: "\<not> endswith ?h ''/''" by (simp add: endswith_slash const_defs)
  have i1: "\<not> startswith (i @ EVAL_SET_RESULT_FILE_EXTENSION) ''/''"
    using assms(6) by (cases i) (auto simp: startswith_slash const_defs)
  have "join_step ?h (i @ EVAL_SET_RESULT_FILE_EXTENSION)
      = ?h @ ''/'' @ i @ EVAL_SET_RESULT_FILE_EXTENSION"
    using e2 i1 by (intro join_step_plain) simp_all
  moreover have "local_get_eval_set_result_path self app i
      = join_step (local_get_eval_history_dir self app) (i @ EVAL_SET_RESULT_FILE_EXTENSION)"
    by (simp add: local_get_eval_set_result_path_def local_get_eval_history_dir_def
        os_path_join_def)
  ultimately show ?thesis using h by simp
qed









lemma startswith_append: "startswith (p @ x) p"
  by (simp add: startswith_def)
















subsection \<open>The id validator\<close>

lemma fullmatch_id_pattern_iff:
  "fullmatch_id_pattern v \<longleftrightarrow> v \<noteq> [] \<and> (\<forall>c \<in> set v. is_word_char c)"
  by (simp add: fullmatch_id_pattern_def list_all_iff)

lemma validate_id_accepts:
  "fullmatch_id_pattern v \<Longrightarrow> validate_id id_name v = Inr ()"
  by (simp add: validate_id_def)

lemma validate_id_rejects:
  "\<not> fullmatch_id_pattern v \<Longrightarrow>
   validate_id id_name v
     = Inl (ValueError (''Invalid '' @ id_name @ ''. '' @ id_name
              @ '' should have the `^[a-zA-Z0-9_]+$` format''))"
  by (simp add: validate_id_def id_pattern_def)

subsection \<open>When a local path is its template\<close>

lemma join_step_length_le: "length (join_step p b) \<le> length p + 1 + length b"
  by (simp add: join_step_def)

lemma join_step_length_eq:
  "length (join_step p b) = length p + 1 + length b
     \<longleftrightarrow> \<not> startswith b ''/'' \<and> p \<noteq> [] \<and> \<not> endswith p ''/''"
  by (auto simp: join_step_def)

lemma startswith_append_ext:
  "x \<noteq> [] \<Longrightarrow> hd x \<noteq> CHR ''/'' \<Longrightarrow> startswith (i @ x) ''/'' = startswith i ''/''"
  by (cases i) (auto simp: startswith_slash)

lemma endswith_dir:
  "endswith (r @ ''/'' @ a) ''/'' \<longleftrightarrow> a = [] \<or> endswith a ''/''"
  by (cases a rule: rev_cases) (auto simp: endswith_slash)

lemma local_eval_set_path_template_iff:
  "local_get_eval_set_path self app i
      = agents_dir self @ ''/'' @ app @ ''/'' @ i @ ''.evalset.json''
   \<longleftrightarrow> agents_dir self \<noteq> [] \<and> \<not> endswith (agents_dir self) ''/''
      \<and> app \<noteq> [] \<and> \<not> startswith app ''/'' \<and> \<not> endswith app ''/''
      \<and> \<not> startswith i ''/''"
  (is "?L \<longleftrightarrow> ?R")
proof
  assume ?R
  then show ?L
    using local_eval_set_path_plain[of self app i] local_dir_plain[of self app]
    by (simp add: const_defs)
next
  assume l: ?L
  let ?r = "agents_dir self" and ?b = "i @ ''.evalset.json''"
  let ?p1 = "join_step ?r app"
  have p: "local_get_eval_set_path self app i = join_step ?p1 ?b"
    by (simp add: local_get_eval_set_path_def os_path_join_def const_defs)
  have len: "length (join_step ?p1 ?b) = length ?r + 1 + length app + 1 + length ?b"
    using l unfolding p by simp
  have l1: "length ?p1 = length ?r + 1 + length app"
    using len join_step_length_le[of ?p1 ?b] join_step_length_le[of ?r app] by linarith
  then have c1: "\<not> startswith app ''/''" "?r \<noteq> []" "\<not> endswith ?r ''/''"
    using join_step_length_eq[of ?r app] by blast+
  then have p1: "?p1 = ?r @ ''/'' @ app" by (simp add: join_step_plain)
  have "length (join_step ?p1 ?b) = length ?p1 + 1 + length ?b" using len l1 by simp
  then have c2: "\<not> startswith ?b ''/''" "\<not> endswith ?p1 ''/''"
    using join_step_length_eq[of ?p1 ?b] by blast+
  have "\<not> startswith i ''/''" using c2(1) startswith_append_ext[of "''.evalset.json''" i] by simp
  moreover have "app \<noteq> []" "\<not> endswith app ''/''"
    using c2(2) endswith_dir[of ?r app] unfolding p1 by auto
  ultimately show ?R using c1 by simp
qed

lemma local_eval_set_result_path_template_iff:
  "local_get_eval_set_result_path self app i
      = agents_dir self @ ''/'' @ app @ ''/.adk/eval_history/'' @ i @ ''.evalset_result.json''
   \<longleftrightarrow> agents_dir self \<noteq> [] \<and> \<not> endswith (agents_dir self) ''/''
      \<and> app \<noteq> [] \<and> \<not> startswith app ''/'' \<and> \<not> endswith app ''/''
      \<and> \<not> startswith i ''/''"
  (is "?L \<longleftrightarrow> ?R")
proof
  assume ?R
  then show ?L
    using local_eval_set_result_path_plain[of self app i] local_history_dir_plain[of self app]
    by (simp add: const_defs)
next
  assume l: ?L
  let ?r = "agents_dir self" and ?h = "''.adk/eval_history''"
    and ?b = "i @ ''.evalset_result.json''"
  let ?p1 = "join_step ?r app"
  let ?p2 = "join_step ?p1 ?h"
  have p: "local_get_eval_set_result_path self app i = join_step ?p2 ?b"
    by (simp add: local_get_eval_set_result_path_def os_path_join_def const_defs)
  have len: "length (join_step ?p2 ?b)
      = length ?r + 1 + length app + 1 + length ?h + 1 + length ?b"
    using l unfolding p by simp
  have l2: "length ?p2 = length ?r + 1 + length app + 1 + length ?h"
    using len join_step_length_le[of ?p2 ?b] join_step_length_le[of ?p1 ?h]
      join_step_length_le[of ?r app] by linarith
  have l1: "length ?p1 = length ?r + 1 + length app"
    using l2 join_step_length_le[of ?p1 ?h] join_step_length_le[of ?r app] by linarith
  then have c1: "\<not> startswith app ''/''" "?r \<noteq> []" "\<not> endswith ?r ''/''"
    using join_step_length_eq[of ?r app] by blast+
  then have p1: "?p1 = ?r @ ''/'' @ app" by (simp add: join_step_plain)
  have "length ?p2 = length ?p1 + 1 + length ?h" using l2 l1 by simp
  then have c2: "\<not> endswith ?p1 ''/''"
    using join_step_length_eq[of ?p1 ?h] by blast
  have "length (join_step ?p2 ?b) = length ?p2 + 1 + length ?b" using len l2 by simp
  then have c3: "\<not> startswith ?b ''/''"
    using join_step_length_eq[of ?p2 ?b] by blast
  have "\<not> startswith i ''/''"
    using c3 startswith_append_ext[of "''.evalset_result.json''" i] by simp
  moreover have "app \<noteq> []" "\<not> endswith app ''/''"
    using c2 endswith_dir[of ?r app] unfolding p1 by auto
  ultimately show ?R using c1 by simp
qed

section \<open>The claims\<close>

subsection \<open>Id validation and key construction\<close>

text \<open>
  Claim C1. The object-store eval set manager is to reject an id or namespace that does not
  match \<^verbatim>\<open>[a-zA-Z0-9_]+\<close> before it builds a key. The validator does reject such values,
  with a message that names the field and the pattern, but \<^verbatim>\<open>get_eval_set_path\<close> never
  calls it: for the namespace \<^verbatim>\<open>my-app\<close> and the id \<^verbatim>\<open>invalid id\<close>, both of which the
  validator refuses, the key is built all the same.
\<close>

theorem gcs_get_eval_set_path_unvalidated:
  "validate_id ''eval_set_id'' ''invalid id''
     = Inl (ValueError
         ''Invalid eval_set_id. eval_set_id should have the `^[a-zA-Z0-9_]+$` format'')
   \<and> validate_id ''app_name'' ''my-app''
     = Inl (ValueError ''Invalid app_name. app_name should have the `^[a-zA-Z0-9_]+$` format'')
   \<and> gcs_get_eval_set_path ''my-app'' ''invalid id''
     = ''my-app/evals/eval_sets/invalid id.evalset.json''"
  by (simp add: validate_id_def fullmatch_id_pattern_def is_word_char_def id_pattern_def
      gcs_get_eval_set_path_def gcs_get_eval_sets_dir_def const_defs)

subsection \<open>Listing a namespace without a directory\<close>

text \<open>
  Claim C2. On a disk where the namespace's directory does not exist, the local eval set
  result manager lists the empty sequence, but the local eval set manager raises
  \<^verbatim>\<open>FileNotFoundError\<close>: it enumerates the directory without the existence check its
  sibling makes.
\<close>

theorem local_list_eval_sets_missing_dir:
  "local_list_eval_sets [] \<lparr>agents_dir = ''agents''\<rparr> ''ghost'' = Inl (OSError FileNotFoundError)
   \<and> local_list_eval_set_results [] \<lparr>agents_dir = ''agents''\<rparr> ''ghost'' = Inr []"
  by (simp add: local_list_eval_sets_def local_list_eval_set_results_def os_listdir_def
      os_path_exists_def)

subsection \<open>Path templates\<close>

text \<open>
  Claim C3, as stated, fails on the local managers: \<^verbatim>\<open>os.path.join\<close> drops everything
  before a component that starts with a slash, so the namespace \<^verbatim>\<open>/srv\<close> under the agents
  directory \<^verbatim>\<open>agents\<close> resolves to \<^verbatim>\<open>/srv/x.evalset.json\<close> and not to the template's
  \<^verbatim>\<open>agents//srv/x.evalset.json\<close>.
\<close>

theorem local_path_not_template:
  "local_get_eval_set_path \<lparr>agents_dir = ''agents''\<rparr> ''/srv'' ''x'' = ''/srv/x.evalset.json''
   \<and> local_get_eval_set_path \<lparr>agents_dir = ''agents''\<rparr> ''/srv'' ''x''
       \<noteq> ''agents'' @ ''/'' @ ''/srv'' @ ''/'' @ ''x'' @ ''.evalset.json''"
  by (simp add: local_get_eval_set_path_def os_path_join_def join_step_def startswith_def
      endswith_def const_defs suffix_to_prefix)

text \<open>
  Claim C3, amended. The two object-store managers return their templates for every
  namespace and id. The two local managers return theirs exactly when the agents directory
  is not empty and does not end with a slash, the namespace is not empty and neither starts
  nor ends with a slash, and the id does not start with a slash.
\<close>

theorem path_templates:
  "(local_get_eval_set_path self app i
        = agents_dir self @ ''/'' @ app @ ''/'' @ i @ ''.evalset.json'')
     = (agents_dir self \<noteq> [] \<and> \<not> endswith (agents_dir self) ''/''
        \<and> app \<noteq> [] \<and> \<not> startswith app ''/'' \<and> \<not> endswith app ''/''
        \<and> \<not> startswith i ''/'')
   \<and> (local_get_eval_set_result_path self app i
        = agents_dir self @ ''/'' @ app @ ''/.adk/eval_history/'' @ i
            @ ''.evalset_result.json'')
     = (agents_dir self \<noteq> [] \<and> \<not> endswith (agents_dir self) ''/''
        \<and> app \<noteq> [] \<and> \<not> startswith app ''/'' \<and> \<not> endswith app ''/''
        \<and> \<not> startswith i ''/'')
   \<and> gcs_get_eval_set_path app i = app @ ''/evals/eval_sets/'' @ i @ ''.evalset.json''
   \<and> gcs_get_eval_set_result_path app i
        = app @ ''/evals/eval_history/'' @ i @ ''.evalset_result.json''"
proof (intro conjI)
  show "(local_get_eval_set_path self app i
        = agents_dir self @ ''/'' @ app @ ''/'' @ i @ ''.evalset.json'')
     = (agents_dir self \<noteq> [] \<and> \<not> endswith (agents_dir self) ''/''
        \<and> app \<noteq> [] \<and> \<not> startswith app ''/'' \<and> \<not> endswith app ''/''
        \<and> \<not> startswith i ''/'')"
    by (rule local_eval_set_path_template_iff)
  show "(local_get_eval_set_result_path self app i
        = agents_dir self @ ''/'' @ app @ ''/.adk/eval_history/'' @ i
            @ ''.evalset_result.json'')
     = (agents_dir self \<noteq> [] \<and> \<not> endswith (agents_dir self) ''/''
        \<and> app \<noteq> [] \<and> \<not> startswith app ''/'' \<and> \<not> endswith app ''/''
        \<and> \<not> startswith i ''/'')"
    by (rule local_eval_set_result_path_template_iff)
  show "gcs_get_eval_set_path app i = app @ ''/evals/eval_sets/'' @ i @ ''.evalset.json''"
    by (simp add: gcs_get_eval_set_path_def gcs_get_eval_sets_dir_def const_defs)
  show "gcs_get_eval_set_result_path app i
        = app @ ''/evals/eval_history/'' @ i @ ''.evalset_result.json''"
    by (simp add: gcs_get_eval_set_result_path_def gcs_get_eval_history_dir_def const_defs)
qed

text \<open>The paths of the unit tests.\<close>

theorem path_templates_witness:
  "local_get_eval_set_path \<lparr>agents_dir = ''/tmp/agents''\<rparr> ''test_app'' ''test_eval_set''
     = ''/tmp/agents/test_app/test_eval_set.evalset.json''
   \<and> local_get_eval_set_result_path \<lparr>agents_dir = ''/tmp/agents''\<rparr> ''test_app''
       ''test_eval_set''
     = ''/tmp/agents/test_app/.adk/eval_history/test_eval_set.evalset_result.json''
   \<and> gcs_get_eval_set_path ''test_app'' ''test_eval_set''
     = ''test_app/evals/eval_sets/test_eval_set.evalset.json''
   \<and> gcs_get_eval_set_result_path ''test_app'' ''test_eval_set_result''
     = ''test_app/evals/eval_history/test_eval_set_result.evalset_result.json''"
  using path_templates[of "\<lparr>agents_dir = ''/tmp/agents''\<rparr>" "''test_app''" "''test_eval_set''"]
    path_templates[of "\<lparr>agents_dir = ''/tmp/agents''\<rparr>" "''test_app''"
      "''test_eval_set_result''"]
  by (simp add: startswith_slash endswith_slash)

subsection \<open>Saving, then loading\<close>



subsection \<open>Listing a namespace the provider does not know\<close>

text \<open>
  Claim C5. When the prefix query for the namespace reports \<^verbatim>\<open>NotFound\<close>, both object-store
  managers raise a \<^verbatim>\<open>ValueError\<close> whose message contains the namespace and the bucket's
  name.
\<close>

theorem gcs_list_namespace_not_found:
  "(list_blobs c (bucket_name self) (gcs_get_eval_sets_dir app) = Inl NotFound \<longrightarrow>
      gcs_list_eval_sets c self app
        = Inl (ValueError (''App `'' @ app @ ''` not found in GCS bucket `''
                 @ bucket_name self @ ''`.'')))
   \<and> (list_blobs c (bucket_name self) (gcs_get_eval_history_dir app) = Inl NotFound \<longrightarrow>
      gcs_list_eval_set_results c self app
        = Inl (ValueError (''App `'' @ app @ ''` not found in GCS bucket `''
                 @ bucket_name self @ ''`.'')))
   \<and> sublist app (''App `'' @ app @ ''` not found in GCS bucket `'' @ bucket_name self @ ''`.'')
   \<and> sublist (bucket_name self)
        (''App `'' @ app @ ''` not found in GCS bucket `'' @ bucket_name self @ ''`.'')"
proof -
  have "sublist app (''App `'' @ app @ ''` not found in GCS bucket `'' @ bucket_name self @ ''`.'')"
    by (rule sublist_appendI)
  moreover have "sublist (bucket_name self)
        ((''App `'' @ app @ ''` not found in GCS bucket `'') @ bucket_name self @ ''`.'')"
    by (rule sublist_appendI)
  ultimately show ?thesis
    by (simp add: gcs_list_eval_sets_def gcs_list_eval_set_results_def)
qed

text \<open>A provider without the bucket: the message of the unit tests.\<close>

theorem gcs_list_namespace_not_found_witness:
  "gcs_list_eval_sets Map.empty \<lparr>bucket_name = ''test_bucket''\<rparr> ''test_app''
     = Inl (ValueError ''App `test_app` not found in GCS bucket `test_bucket`.'')
   \<and> gcs_list_eval_set_results Map.empty \<lparr>bucket_name = ''test_bucket''\<rparr> ''test_app''
     = Inl (ValueError ''App `test_app` not found in GCS bucket `test_bucket`.'')"
  using gcs_list_namespace_not_found[of Map.empty "\<lparr>bucket_name = ''test_bucket''\<rparr>" "''test_app''"]
  by (simp add: list_blobs_def)

subsection \<open>Listing after several saves\<close>




subsection \<open>Loading what was never written\<close>



subsection \<open>Constructing an object-store manager\<close>



subsection \<open>Ids that contain the file extension\<close>




subsection \<open>Objects without the file extension\<close>

text \<open>
  Claim C10. The object-store managers filter by prefix only: an object under the
  namespace's prefix whose name does not end with the file extension is listed all the
  same, under the last slash-separated component of its name, unchanged.
\<close>

theorem gcs_list_keeps_unsuffixed:
  "(c (bucket_name self) = Some objs \<and> name \<in> set (map fst objs)
      \<and> startswith name (gcs_get_eval_sets_dir app)
      \<and> \<not> endswith name EVAL_SET_FILE_EXTENSION \<longrightarrow>
      (\<exists>ids. gcs_list_eval_sets c self app = Inr ids
          \<and> last (split_char CHR ''/'' name) \<in> set ids))
   \<and> (c (bucket_name self) = Some objs \<and> name \<in> set (map fst objs)
      \<and> startswith name (gcs_get_eval_history_dir app)
      \<and> \<not> endswith name EVAL_SET_RESULT_FILE_EXTENSION \<longrightarrow>
      (\<exists>ids. gcs_list_eval_set_results c self app = Inr ids
          \<and> last (split_char CHR ''/'' name) \<in> set ids))"
proof -
  have keep: "removesuffix (last (split_char CHR ''/'' name)) x = last (split_char CHR ''/'' name)"
    if "\<not> endswith name x" "CHR ''/'' \<notin> set x" for x
    using that by (simp add: last_split_slash removesuffix_no_suffix endswith_basename)
  have a: "removesuffix (last (split_char CHR ''/'' name)) EVAL_SET_FILE_EXTENSION
      = last (split_char CHR ''/'' name)" if "\<not> endswith name EVAL_SET_FILE_EXTENSION"
    using that by (intro keep) (simp_all add: const_defs)
  have b: "removesuffix (last (split_char CHR ''/'' name)) EVAL_SET_RESULT_FILE_EXTENSION
      = last (split_char CHR ''/'' name)" if "\<not> endswith name EVAL_SET_RESULT_FILE_EXTENSION"
    using that by (intro keep) (simp_all add: const_defs)
  show ?thesis
  proof (intro conjI impI; elim conjE)
    assume h: "c (bucket_name self) = Some objs" "name \<in> set (map fst objs)"
      "startswith name (gcs_get_eval_sets_dir app)" "\<not> endswith name EVAL_SET_FILE_EXTENSION"
    have "last (split_char CHR ''/'' name)
       \<in> (\<lambda>n. removesuffix (last (split_char CHR ''/'' n)) EVAL_SET_FILE_EXTENSION)
           ` {n \<in> set (map fst objs). startswith n (gcs_get_eval_sets_dir app)}"
      using h a by (metis (mono_tags, lifting) image_eqI mem_Collect_eq)
    then show "\<exists>ids. gcs_list_eval_sets c self app = Inr ids
          \<and> last (split_char CHR ''/'' name) \<in> set ids"
      using h(1) by (simp add: gcs_list_eval_sets_def list_blobs_def)
  next
    assume h: "c (bucket_name self) = Some objs" "name \<in> set (map fst objs)"
      "startswith name (gcs_get_eval_history_dir app)"
      "\<not> endswith name EVAL_SET_RESULT_FILE_EXTENSION"
    have "last (split_char CHR ''/'' name)
       \<in> (\<lambda>n. removesuffix (last (split_char CHR ''/'' n)) EVAL_SET_RESULT_FILE_EXTENSION)
           ` {n \<in> set (map fst objs). startswith n (gcs_get_eval_history_dir app)}"
      using h b by (metis (mono_tags, lifting) image_eqI mem_Collect_eq)
    then show "\<exists>ids. gcs_list_eval_set_results c self app = Inr ids
          \<and> last (split_char CHR ''/'' name) \<in> set ids"
      using h(1) by (simp add: gcs_list_eval_set_results_def list_blobs_def)
  qed
qed

text \<open>An object \<^verbatim>\<open>notes.txt\<close> under the prefix.\<close>

theorem gcs_list_keeps_unsuffixed_witness:
  "(\<exists>ids. gcs_list_eval_sets
       (Map.empty(''test_bucket'' \<mapsto>
          [(''test_app/evals/eval_sets/notes.txt'',
            \<lparr>content = ''hello'', content_type = ''text/plain'', readable = True\<rparr>)]))
       \<lparr>bucket_name = ''test_bucket''\<rparr> ''test_app'' = Inr ids
     \<and> ''notes.txt'' \<in> set ids)
   \<and> (\<exists>ids. gcs_list_eval_set_results
       (Map.empty(''test_bucket'' \<mapsto>
          [(''test_app/evals/eval_history/notes.txt'',
            \<lparr>content = ''hello'', content_type = ''text/plain'', readable = True\<rparr>)]))
       \<lparr>bucket_name = ''test_bucket''\<rparr> ''test_app'' = Inr ids
     \<and> ''notes.txt'' \<in> set ids)"
  using gcs_list_keeps_unsuffixed[of
      "Map.empty(''test_bucket'' \<mapsto>
          [(''test_app/evals/eval_sets/notes.txt'',
            \<lparr>content = ''hello'', content_type = ''text/plain'', readable = True\<rparr>)])"
      "\<lparr>bucket_name = ''test_bucket''\<rparr>" _ "''test_app/evals/eval_sets/notes.txt''" "''test_app''"]
    gcs_list_keeps_unsuffixed[of
      "Map.empty(''test_bucket'' \<mapsto>
          [(''test_app/evals/eval_history/notes.txt'',
            \<lparr>content = ''hello'', content_type = ''text/plain'', readable = True\<rparr>)])"
      "\<lparr>bucket_name = ''test_bucket''\<rparr>" _ "''test_app/evals/eval_history/notes.txt''"
      "''test_app''"]
  by (simp add: gcs_defs const_defs startswith_def endswith_def suffix_to_prefix)

end
